theory Spec2Isabelle
  imports Main
begin

section \<open>Python strings\<close>

text \<open>
  A Python \<open>str\<close> is a sequence of Unicode code points, so a string is a list of
  code points (integers, as \<open>ord\<close> gives them). \<open>ascii\<close> embeds the ASCII
  literals of the source.
\<close>

type_synonym pystr = "int list"

definition ascii :: "string \<Rightarrow> pystr" where
  "ascii s = map of_char s"

text \<open>The box-drawing character U+2502 of the source (``not a regular pipe'').\<close>

definition bar :: int where
  "bar = 9474"

definition newline :: int where
  "newline = 10"

text \<open>
  \<open>str.isspace\<close> on one code point, the class that \<open>str.strip()\<close> removes and that
  \<open>\\s\<close> matches in a \<open>str\<close> pattern: U+0009..U+000D, U+001C..U+0020, U+0085,
  U+00A0, U+1680, U+2000..U+200A, U+2028, U+2029, U+202F, U+205F, U+3000.
\<close>

definition isspace :: "int \<Rightarrow> bool" where
  "isspace c \<longleftrightarrow>
     (9 \<le> c \<and> c \<le> 13) \<or> (28 \<le> c \<and> c \<le> 32) \<or> c = 133 \<or> c = 160 \<or> c = 5760 \<or>
     (8192 \<le> c \<and> c \<le> 8202) \<or> c = 8232 \<or> c = 8233 \<or> c = 8239 \<or> c = 8287 \<or>
     c = 12288"

text \<open>\<open>s.strip()\<close>: whitespace removed at both ends.\<close>

definition strip :: "pystr \<Rightarrow> pystr" where
  "strip s = rev (dropWhile isspace (rev (dropWhile isspace s)))"

text \<open>
  \<open>s.split(sep)\<close> for a separator of one code point: the pieces between the
  separators, always at least one piece. The result of the recursive call is never
  empty; the \<open>[]\<close> branch only makes the \<open>case\<close> total.
\<close>

fun split_chr :: "int \<Rightarrow> pystr \<Rightarrow> pystr list" where
  "split_chr sep [] = [[]]"
| "split_chr sep (c # cs) =
     (if c = sep then [] # split_chr sep cs
      else (case split_chr sep cs of
              [] \<Rightarrow> [[c]]
            | p # ps \<Rightarrow> (c # p) # ps))"

text \<open>\<open>s.startswith(p)\<close>.\<close>

fun startswith :: "pystr \<Rightarrow> pystr \<Rightarrow> bool" where
  "startswith s [] = True"
| "startswith [] (p # ps) = False"
| "startswith (c # cs) (p # ps) = (c = p \<and> startswith cs ps)"

text \<open>\<open>p in s\<close>: \<open>p\<close> occurs in \<open>s\<close> as a substring.\<close>

fun contains :: "pystr \<Rightarrow> pystr \<Rightarrow> bool" where
  "contains [] p = (p = [])"
| "contains (c # cs) p = (startswith (c # cs) p \<or> contains cs p)"

section \<open>The size pattern\<close>

text \<open>
  The pattern of the source is \<open>(\\d+\\.?\\d*\\s*[KMGTP]?i?B)\<close>: a sequence of
  single-character classes, each taken once, optionally, or repeated greedily. The
  matcher is the backtracking one of Python's \<open>re\<close>: every item lists what is left
  of the text after each of its alternatives, the preferred (longest) alternative
  first, and the first alternative that lets the whole sequence match wins.
\<close>

datatype atom =
    One "int \<Rightarrow> bool"
  | Opt "int \<Rightarrow> bool"
  | Star "int \<Rightarrow> bool"
  | Plus "int \<Rightarrow> bool"

fun star :: "(int \<Rightarrow> bool) \<Rightarrow> pystr \<Rightarrow> pystr list" where
  "star p [] = [[]]"
| "star p (c # cs) = (if p c then star p cs @ [c # cs] else [c # cs])"

fun atom_rests :: "atom \<Rightarrow> pystr \<Rightarrow> pystr list" where
  "atom_rests (One p) s = (case s of [] \<Rightarrow> [] | c # cs \<Rightarrow> if p c then [cs] else [])"
| "atom_rests (Opt p) s = (case s of [] \<Rightarrow> [s] | c # cs \<Rightarrow> if p c then [cs, s] else [s])"
| "atom_rests (Star p) s = star p s"
| "atom_rests (Plus p) s = (case s of [] \<Rightarrow> [] | c # cs \<Rightarrow> if p c then star p cs else [])"

fun seq_rests :: "atom list \<Rightarrow> pystr \<Rightarrow> pystr list" where
  "seq_rests [] s = [s]"
| "seq_rests (a # as) s = concat (map (seq_rests as) (atom_rests a s))"

text \<open>\<open>re.match\<close> at the start of \<open>s\<close>: the matched text, if any.\<close>

definition match_here :: "atom list \<Rightarrow> pystr \<Rightarrow> pystr option" where
  "match_here pat s =
     (case seq_rests pat s of
        [] \<Rightarrow> None
      | r # _ \<Rightarrow> Some (take (length s - length r) s))"

text \<open>\<open>re.search\<close>: the match at the leftmost position that has one.\<close>

fun re_search :: "atom list \<Rightarrow> pystr \<Rightarrow> pystr option" where
  "re_search pat [] = match_here pat []"
| "re_search pat (c # cs) =
     (case match_here pat (c # cs) of
        Some m \<Rightarrow> Some m
      | None \<Rightarrow> re_search pat cs)"

text \<open>
  \<open>\\d\<close> in a \<open>str\<close> pattern is the Unicode decimal-digit class of the Python
  runtime. That table is not part of the program, so it is a parameter \<open>nd\<close> here.
  \<open>ascii_digit\<close> is its ASCII part.
\<close>

definition ascii_digit :: "int \<Rightarrow> bool" where
  "ascii_digit c \<longleftrightarrow> 48 \<le> c \<and> c \<le> 57"

definition size_pattern :: "(int \<Rightarrow> bool) \<Rightarrow> atom list" where
  "size_pattern nd =
     [Plus nd,
      Opt (\<lambda>c. c = 46),
      Star nd,
      Star isspace,
      Opt (\<lambda>c. c = 75 \<or> c = 77 \<or> c = 71 \<or> c = 84 \<or> c = 80),
      Opt (\<lambda>c. c = 105),
      One (\<lambda>c. c = 66)]"

section \<open>The two parsing loops\<close>

text \<open>
  The loop over the lines of the \<open>get-config\<close> output: the first line that contains
  \<open>SUBVOLUME\<close> and splits at U+2502 into at least two parts gives the subvolume and
  ends the loop; \<open>None\<close> is the initial value of \<open>subvolume\<close>.
\<close>

fun subvolume_loop :: "pystr list \<Rightarrow> pystr option" where
  "subvolume_loop [] = None"
| "subvolume_loop (line # rest) =
     (if contains line (ascii ''SUBVOLUME'') then
        (let parts = split_chr bar line in
         if 2 \<le> length parts then Some (strip (parts ! 1))
         else subvolume_loop rest)
      else subvolume_loop rest)"

text \<open>
  The loop over the lines of the \<open>list\<close> output: the first line whose stripped text
  starts with the snapshot number ends the loop, with the text the pattern finds in
  that line, or with \<open>size'\<close> (the variable \<open>size\<close>) as it was when the pattern
  finds nothing.
\<close>

fun size_loop :: "(int \<Rightarrow> bool) \<Rightarrow> pystr \<Rightarrow> pystr list \<Rightarrow> pystr \<Rightarrow> pystr" where
  "size_loop nd snapshot_num [] size' = size'"
| "size_loop nd snapshot_num (line # rest) size' =
     (if startswith (strip line) snapshot_num then
        (case re_search (size_pattern nd) line of
           Some size_match \<Rightarrow> size_match
         | None \<Rightarrow> size')
      else size_loop nd snapshot_num rest size')"

section \<open>The window and the external tool\<close>

text \<open>
  What \<open>subprocess.run(..., check=True, capture_output=True, text=True)\<close> can do:
  the process exits with a return code, its output and its error text, or the call
  raises another exception (the program cannot be started, its output cannot be
  decoded), of which only the message matters.
\<close>

datatype proc_result =
    Exited int pystr pystr
  | Not_run pystr

datatype exn =
    CalledProcessError int pystr pystr
  | OtherException pystr

text \<open>
  The world outside the handler: how the external tool answers a command line, and
  the decimal-digit table of the runtime.
\<close>

record world =
  respond :: "pystr list \<Rightarrow> proc_result"
  isdecimal :: "int \<Rightarrow> bool"

text \<open>A message box: its kind, title and text.\<close>

datatype dialog =
    Warning pystr pystr
  | Information pystr pystr
  | Critical pystr pystr

text \<open>
  The state the handler reads and writes: the text of the input field, whether the
  button is enabled, the status bar message, the message boxes shown so far, and the
  command lines given to \<open>subprocess.run\<close> so far, each with the state of the
  button at the time of the call.
\<close>

record window =
  comment_input :: pystr
  snap_button_enabled :: bool
  status_bar :: pystr
  dialogs :: "dialog list"
  calls :: "(pystr list \<times> bool) list"

definition subprocess_run ::
    "world \<Rightarrow> pystr list \<Rightarrow> window \<Rightarrow> (exn + pystr \<times> pystr) \<times> window" where
  "subprocess_run w argv g =
     (let g' = g\<lparr>calls := calls g @ [(argv, snap_button_enabled g)]\<rparr> in
      case respond w argv of
        Exited rc out err \<Rightarrow>
          if rc \<noteq> 0 then (Inl (CalledProcessError rc out err), g')
          else (Inr (out, err), g')
      | Not_run msg \<Rightarrow> (Inl (OtherException msg), g'))"

definition create_cmd :: "pystr \<Rightarrow> pystr list" where
  "create_cmd comment =
     [ascii ''sudo'', ascii ''snapper'', ascii ''create'', ascii ''--description'', comment,
      ascii ''--type'', ascii ''single'', ascii ''--print-number'']"

definition get_config_cmd :: "pystr list" where
  "get_config_cmd = [ascii ''sudo'', ascii ''snapper'', ascii ''get-config'']"

definition list_cmd :: "pystr list" where
  "list_cmd = [ascii ''sudo'', ascii ''snapper'', ascii ''list'', ascii ''-t'', ascii ''single'']"

section \<open>The handler\<close>

text \<open>
  The body of the \<open>try\<close> statement of \<open>take_snapshot\<close>. It returns the exception
  that left it, if any, and the window as it was then. The log messages are left out.
\<close>

definition try_block :: "world \<Rightarrow> pystr \<Rightarrow> window \<Rightarrow> (exn + unit) \<times> window" where
  "try_block w comment g0 =
     (let g1 = g0\<lparr>status_bar := ascii ''Creating snapshot...''\<rparr>;
          g2 = g1\<lparr>snap_button_enabled := False\<rparr>
      in case subprocess_run w (create_cmd comment) g2 of
        (Inl e, g3) \<Rightarrow> (Inl e, g3)
      | (Inr create_result, g3) \<Rightarrow>
          (let snapshot_num = strip (fst create_result) in
           if snapshot_num = [] then
             (Inl (OtherException (ascii ''Failed to get snapshot number'')), g3)
           else
             (case subprocess_run w get_config_cmd g3 of
                (Inl e, g4) \<Rightarrow> (Inl e, g4)
              | (Inr config_result, g4) \<Rightarrow>
                  (case subvolume_loop (split_chr newline (fst config_result)) of
                     None \<Rightarrow> (Inl (OtherException (ascii ''Failed to get subvolume path'')), g4)
                   | Some subvolume \<Rightarrow>
                       if subvolume = [] then
                         (Inl (OtherException (ascii ''Failed to get subvolume path'')), g4)
                       else
                         (let snapshot_path =
                                subvolume @ ascii ''/.snapshots/'' @ snapshot_num @ ascii ''/snapshot''
                          in case subprocess_run w list_cmd g4 of
                            (Inl e, g5) \<Rightarrow> (Inl e, g5)
                          | (Inr details_result, g5) \<Rightarrow>
                              (let size' = size_loop (isdecimal w) snapshot_num
                                            (split_chr newline (fst details_result))
                                            (ascii ''Unknown'');
                                   success_msg =
                                     ascii ''Snapshot #'' @ snapshot_num
                                       @ ascii '' created successfully!'' @ [newline, newline]
                                       @ ascii ''Size: '' @ size' @ [newline]
                                       @ ascii ''Location: '' @ snapshot_path;
                                   g6 = g5\<lparr>status_bar := ascii ''Snapshot created successfully''\<rparr>;
                                   g7 = g6\<lparr>dialogs := dialogs g6
                                          @ [Information (ascii ''Success'') success_msg]\<rparr>;
                                   g8 = g7\<lparr>comment_input := []\<rparr>
                               in (Inr (), g8)))))))"

text \<open>
  \<open>take_snapshot\<close>: the emptiness check with its early return, the \<open>try\<close> block,
  the two \<open>except\<close> clauses and the \<open>finally\<close> clause.
\<close>

definition take_snapshot :: "world \<Rightarrow> window \<Rightarrow> window" where
  "take_snapshot w g =
     (let comment = strip (comment_input g) in
      if comment = [] then
        g\<lparr>dialogs := dialogs g
             @ [Warning (ascii ''Warning'')
                  (ascii ''Please enter a description for the snapshot.'')]\<rparr>
      else
        (case try_block w comment g of
           (r, g') \<Rightarrow>
             (let g'' =
                (case r of
                   Inl (CalledProcessError rc out err) \<Rightarrow>
                     (let error_msg = ascii ''Failed to create snapshot. Error: '' @ err;
                          h = g'\<lparr>status_bar := ascii ''Error creating snapshot''\<rparr>
                      in h\<lparr>dialogs := dialogs h @ [Critical (ascii ''Error'') error_msg]\<rparr>)
                 | Inl (OtherException msg) \<Rightarrow>
                     (let error_msg = ascii ''An unexpected error occurred: '' @ msg;
                          h = g'\<lparr>status_bar := ascii ''Error creating snapshot''\<rparr>
                      in h\<lparr>dialogs := dialogs h @ [Critical (ascii ''Error'') error_msg]\<rparr>)
                 | Inr u \<Rightarrow> g')
              in g''\<lparr>snap_button_enabled := True\<rparr>)))"

text \<open>The command lines one invocation of the handler gives to \<open>subprocess.run\<close>.\<close>

definition issued :: "world \<Rightarrow> window \<Rightarrow> pystr list list" where
  "issued w g = map fst (drop (length (calls g)) (calls (take_snapshot w g)))"

text \<open>The run is successful when the \<open>try\<close> block is left without an exception.\<close>

definition run_succeeds :: "world \<Rightarrow> window \<Rightarrow> bool" where
  "run_succeeds w g \<longleftrightarrow>
     strip (comment_input g) \<noteq> [] \<and>
     (case try_block w (strip (comment_input g)) g of
        (Inl e, g') \<Rightarrow> False
      | (Inr u, g') \<Rightarrow> True)"

text \<open>
  What the three steps obtain from the tool. The snapshot number: the stripped
  output of the create command for a description, when the command exits with code 0
  and that text is not empty.
\<close>

definition created_number :: "world \<Rightarrow> pystr \<Rightarrow> pystr option" where
  "created_number w comment =
     (case respond w (create_cmd comment) of
        Exited rc out err \<Rightarrow> if rc = 0 \<and> strip out \<noteq> [] then Some (strip out) else None
      | Not_run msg \<Rightarrow> None)"

text \<open>
  The subvolume: what the loop finds in the output of \<open>get-config\<close>, when the command
  exits with code 0 and the loop finds a text that is not empty.
\<close>

definition config_subvolume :: "world \<Rightarrow> pystr option" where
  "config_subvolume w =
     (case respond w get_config_cmd of
        Exited rc out err \<Rightarrow>
          if rc = 0 then
            (case subvolume_loop (split_chr newline out) of
               None \<Rightarrow> None
             | Some subvolume \<Rightarrow> if subvolume = [] then None else Some subvolume)
          else None
      | Not_run msg \<Rightarrow> None)"

text \<open>The listing: the output of \<open>list\<close>, when the command exits with code 0.\<close>

definition listing_text :: "world \<Rightarrow> pystr option" where
  "listing_text w =
     (case respond w list_cmd of
        Exited rc out err \<Rightarrow> if rc = 0 then Some out else None
      | Not_run msg \<Rightarrow> None)"

section \<open>Sample runs\<close>

text \<open>The window as it is when the user has typed a description and clicks.\<close>

definition typed :: "pystr \<Rightarrow> window" where
  "typed s =
     \<lparr>comment_input = s, snap_button_enabled = True, status_bar = ascii ''Ready'',
      dialogs = [], calls = []\<rparr>"

text \<open>A tool whose three commands give fixed answers.\<close>

definition answers :: "proc_result \<Rightarrow> proc_result \<Rightarrow> proc_result \<Rightarrow> world" where
  "answers created config listing =
     \<lparr>respond = (\<lambda>argv. if argv = get_config_cmd then config
                          else if argv = list_cmd then listing
                          else created),
      isdecimal = ascii_digit\<rparr>"

text \<open>A table row: its columns, separated by U+2502 with a blank on each side.\<close>

fun row :: "string list \<Rightarrow> pystr" where
  "row [] = []"
| "row [c] = ascii c"
| "row (c # cs) = ascii c @ [32, bar, 32] @ row cs"

definition config_table :: pystr where
  "config_table =
     row [''Key                   '', ''Value''] @ [newline]
     @ row [''FSTYPE                '', ''btrfs''] @ [newline]
     @ row [''SUBVOLUME             '', ''/home''] @ [newline]
     @ row [''TIMELINE_CREATE       '', ''yes''] @ [newline]"

text \<open>
  A listing whose date column is in the format of the \<open>en_GB\<close> locale, with the time
  zone after the time of day.
\<close>

definition listing_bst :: pystr where
  "listing_bst =
     row [''  #'', ''Type  '', ''Pre #'', ''Date                        '', ''User'',
          ''Used Space'', ''Cleanup'', ''Description'', ''Userdata''] @ [newline]
     @ row ['' 0 '', ''single'', ''     '', ''                            '', ''root'',
          ''          '', ''       '', ''current    '', ''        ''] @ [newline]
     @ row ['' 5 '', ''single'', ''     '', ''Tue 07 Jul 2020 10:40:29 BST'', ''root'',
          ''128.00 KiB'', ''       '', ''before update'', ''        ''] @ [newline]"

text \<open>The same listing with the date in the format of the \<open>C\<close> locale.\<close>

definition listing_c :: pystr where
  "listing_c =
     row [''  #'', ''Type  '', ''Pre #'', ''Date                    '', ''User'',
          ''Used Space'', ''Cleanup'', ''Description'', ''Userdata''] @ [newline]
     @ row ['' 0 '', ''single'', ''     '', ''                        '', ''root'',
          ''          '', ''       '', ''current    '', ''        ''] @ [newline]
     @ row ['' 5 '', ''single'', ''     '', ''Tue Jul  7 10:40:29 2020'', ''root'',
          ''128.00 KiB'', ''       '', ''before update'', ''        ''] @ [newline]"

text \<open>A listing of a tool that reports no sizes.\<close>

definition listing_nosize :: pystr where
  "listing_nosize =
     row [''  #'', ''Type  '', ''Pre #'', ''Date                    '', ''User'',
          ''Cleanup'', ''Description'', ''Userdata''] @ [newline]
     @ row ['' 5 '', ''single'', ''     '', ''Tue Jul  7 10:40:29 2020'', ''root'',
          ''       '', ''before update'', ''        ''] @ [newline]"

text \<open>The output of the create command: the number and a line end.\<close>

definition number_5 :: proc_result where
  "number_5 = Exited 0 (ascii ''5'' @ [newline]) []"

definition snapper_c :: world where
  "snapper_c = answers number_5 (Exited 0 config_table []) (Exited 0 listing_c [])"

definition snapper_bst :: world where
  "snapper_bst = answers number_5 (Exited 0 config_table []) (Exited 0 listing_bst [])"

definition snapper_nosize :: world where
  "snapper_nosize = answers number_5 (Exited 0 config_table []) (Exited 0 listing_nosize [])"

text \<open>A tool whose create command exits with code 0 and prints an empty line.\<close>

definition snapper_no_number :: world where
  "snapper_no_number =
     answers (Exited 0 [newline] []) (Exited 0 config_table []) (Exited 0 listing_c [])"

text \<open>A tool whose configuration table has no \<open>SUBVOLUME\<close> line.\<close>

definition snapper_no_subvolume :: world where
  "snapper_no_subvolume =
     answers number_5
       (Exited 0 (row [''FSTYPE                '', ''btrfs''] @ [newline]) [])
       (Exited 0 listing_c [])"

text \<open>A tool whose commands are refused: exit code 1 and a message on the error stream.\<close>

definition sudo_refused :: proc_result where
  "sudo_refused = Exited 1 [] (ascii ''sudo: a password is required'' @ [newline])"

definition snapper_refused :: world where
  "snapper_refused = answers sudo_refused sudo_refused sudo_refused"

text \<open>A tool whose \<open>list\<close> command alone fails.\<close>

definition snapper_list_fails :: world where
  "snapper_list_fails =
     answers number_5 (Exited 0 config_table [])
       (Exited 1 [] (ascii ''Unknown config.'' @ [newline]))"

section \<open>Facts about the string functions\<close>

lemma strip_Nil_iff: "strip s = [] \<longleftrightarrow> (\<forall>c\<in>set s. isspace c)"
proof
  assume "strip s = []"
  then have "\<forall>x\<in>set (dropWhile isspace s). isspace x"
    by (simp add: strip_def)
  then have "dropWhile isspace s = []"
    by (metis hd_dropWhile hd_in_set)
  then show "\<forall>c\<in>set s. isspace c"
    by simp
next
  assume "\<forall>c\<in>set s. isspace c"
  then show "strip s = []"
    by (auto simp: strip_def dest: set_dropWhileD)
qed

lemma split_chr_not_Nil: "split_chr sep s \<noteq> []"
  by (induction s) (auto split: list.splits)

text \<open>The two loops find the first line that meets their test.\<close>

lemma subvolume_loop_find:
  "subvolume_loop ls =
     map_option (\<lambda>line. strip (split_chr bar line ! 1))
       (find (\<lambda>line. contains line (ascii ''SUBVOLUME'') \<and> 2 \<le> length (split_chr bar line)) ls)"
  by (induction ls) (simp_all add: Let_def)

lemma size_loop_find:
  "size_loop nd num ls d =
     (case find (\<lambda>line. startswith (strip line) num) ls of
        None \<Rightarrow> d
      | Some line \<Rightarrow> (case re_search (size_pattern nd) line of None \<Rightarrow> d | Some m \<Rightarrow> m))"
  by (induction ls) simp_all

section \<open>The paths through the handler\<close>

text \<open>
  Every run takes one of eleven paths: the description is rejected; one of the three
  commands cannot be run or exits with a code other than 0; the create command
  prints no number; the configuration gives no subvolume or an empty one; or all
  three steps succeed.
\<close>

lemma run_cases [case_names rejected create_raises create_nonzero no_number
    config_raises config_nonzero no_subvolume empty_subvolume
    list_raises list_nonzero success]:
  fixes w :: world and g :: window
  obtains
    "strip (comment_input g) = []"
  | msg where "strip (comment_input g) \<noteq> []"
      and "respond w (create_cmd (strip (comment_input g))) = Not_run msg"
  | rc out err where "strip (comment_input g) \<noteq> []"
      and "respond w (create_cmd (strip (comment_input g))) = Exited rc out err"
      and "rc \<noteq> 0"
  | out err where "strip (comment_input g) \<noteq> []"
      and "respond w (create_cmd (strip (comment_input g))) = Exited 0 out err"
      and "strip out = []"
  | out err msg where "strip (comment_input g) \<noteq> []"
      and "respond w (create_cmd (strip (comment_input g))) = Exited 0 out err"
      and "strip out \<noteq> []"
      and "respond w get_config_cmd = Not_run msg"
  | out err rc2 out2 err2 where "strip (comment_input g) \<noteq> []"
      and "respond w (create_cmd (strip (comment_input g))) = Exited 0 out err"
      and "strip out \<noteq> []"
      and "respond w get_config_cmd = Exited rc2 out2 err2" and "rc2 \<noteq> 0"
  | out err out2 err2 where "strip (comment_input g) \<noteq> []"
      and "respond w (create_cmd (strip (comment_input g))) = Exited 0 out err"
      and "strip out \<noteq> []"
      and "respond w get_config_cmd = Exited 0 out2 err2"
      and "subvolume_loop (split_chr newline out2) = None"
  | out err out2 err2 where "strip (comment_input g) \<noteq> []"
      and "respond w (create_cmd (strip (comment_input g))) = Exited 0 out err"
      and "strip out \<noteq> []"
      and "respond w get_config_cmd = Exited 0 out2 err2"
      and "subvolume_loop (split_chr newline out2) = Some []"
  | out err out2 err2 sv msg where "strip (comment_input g) \<noteq> []"
      and "respond w (create_cmd (strip (comment_input g))) = Exited 0 out err"
      and "strip out \<noteq> []"
      and "respond w get_config_cmd = Exited 0 out2 err2"
      and "subvolume_loop (split_chr newline out2) = Some sv" and "sv \<noteq> []"
      and "respond w list_cmd = Not_run msg"
  | out err out2 err2 sv rc3 out3 err3 where "strip (comment_input g) \<noteq> []"
      and "respond w (create_cmd (strip (comment_input g))) = Exited 0 out err"
      and "strip out \<noteq> []"
      and "respond w get_config_cmd = Exited 0 out2 err2"
      and "subvolume_loop (split_chr newline out2) = Some sv" and "sv \<noteq> []"
      and "respond w list_cmd = Exited rc3 out3 err3" and "rc3 \<noteq> 0"
  | out err out2 err2 sv out3 err3 where "strip (comment_input g) \<noteq> []"
      and "respond w (create_cmd (strip (comment_input g))) = Exited 0 out err"
      and "strip out \<noteq> []"
      and "respond w get_config_cmd = Exited 0 out2 err2"
      and "subvolume_loop (split_chr newline out2) = Some sv" and "sv \<noteq> []"
      and "respond w list_cmd = Exited 0 out3 err3"
proof (cases "strip (comment_input g) = []")
  case True
  then show ?thesis by (rule that(1))
next
  case ne: False
  show ?thesis
  proof (cases "respond w (create_cmd (strip (comment_input g)))")
    case (Not_run msg)
    with ne show ?thesis by (rule that(2))
  next
    case created: (Exited rc out err)
    show ?thesis
    proof (cases "rc = 0")
      case False
      with ne created show ?thesis by (rule that(3))
    next
      case True
      with created have created0:
        "respond w (create_cmd (strip (comment_input g))) = Exited 0 out err"
        by simp
      show ?thesis
      proof (cases "strip out = []")
        case True
        with ne created0 show ?thesis by (rule that(4))
      next
        case num: False
        show ?thesis
        proof (cases "respond w get_config_cmd")
          case (Not_run msg)
          with ne created0 num show ?thesis by (rule that(5))
        next
          case config: (Exited rc2 out2 err2)
          show ?thesis
          proof (cases "rc2 = 0")
            case False
            with ne created0 num config show ?thesis by (rule that(6))
          next
            case True
            with config have config0: "respond w get_config_cmd = Exited 0 out2 err2"
              by simp
            show ?thesis
            proof (cases "subvolume_loop (split_chr newline out2)")
              case None
              with ne created0 num config0 show ?thesis by (rule that(7))
            next
              case (Some sv)
              show ?thesis
              proof (cases "sv = []")
                case True
                with Some have "subvolume_loop (split_chr newline out2) = Some []"
                  by simp
                with ne created0 num config0 show ?thesis by (rule that(8))
              next
                case sv: False
                show ?thesis
                proof (cases "respond w list_cmd")
                  case (Not_run msg)
                  with ne created0 num config0 Some sv show ?thesis by (rule that(9))
                next
                  case listed: (Exited rc3 out3 err3)
                  show ?thesis
                  proof (cases "rc3 = 0")
                    case False
                    with ne created0 num config0 Some sv listed show ?thesis
                      by (rule that(10))
                  next
                    case True
                    with listed have "respond w list_cmd = Exited 0 out3 err3"
                      by simp
                    with ne created0 num config0 Some sv show ?thesis
                      by (rule that(11))
                  qed
                qed
              qed
            qed
          qed
        qed
      qed
    qed
  qed
qed

lemmas handler_defs =
  take_snapshot_def try_block_def subprocess_run_def run_succeeds_def issued_def
  created_number_def config_subvolume_def listing_text_def Let_def

section \<open>What the size pattern finds\<close>

text \<open>A greedy repetition prefers the whole run of characters of its class.\<close>

lemma star_run:
  assumes "\<forall>c\<in>set xs. p c" and "ys = [] \<or> \<not> p (hd ys)"
  shows "\<exists>more. star p (xs @ ys) = ys # more"
  using assms
proof (induction xs)
  case Nil
  then show ?case by (cases ys) auto
next
  case (Cons x xs)
  then obtain more where "star p (xs @ ys) = ys # more"
    by auto
  with Cons.prems show ?case
    by simp
qed

text \<open>
  When the preferred alternative of the first item leads to a match of the rest of
  the pattern, that match is the one the sequence prefers.
\<close>

lemma seq_rests_first:
  assumes "\<exists>rs. atom_rests a s = r # rs" and "\<exists>ts. seq_rests as r = t # ts"
  shows "\<exists>more. seq_rests (a # as) s = t # more"
  using assms by auto

text \<open>
  A size token: digits, optionally a point and digits, whitespace, optionally one of
  \<open>K M G T P\<close>, optionally \<open>i\<close>, and \<open>B\<close>. The class \<open>nd\<close> of the
  digits has none of the other characters of the pattern. At the start of such a
  token the pattern matches the token and no more, whatever follows it.
\<close>

lemma size_token_matched:
  assumes nd: "\<forall>c. nd c \<longrightarrow> c \<noteq> 46 \<and> \<not> isspace c \<and> c \<notin> {75, 77, 71, 84, 80, 105, 66}"
    and d1: "d1 \<noteq> []" "\<forall>c\<in>set d1. nd c"
    and frac: "frac = [] \<or> (\<exists>d2. frac = 46 # d2 \<and> (\<forall>c\<in>set d2. nd c))"
    and ws: "\<forall>c\<in>set ws. isspace c"
    and u: "u \<in> {[], [75], [77], [71], [84], [80]}"
    and ib: "ib \<in> {[], [105]}"
  shows "match_here (size_pattern nd) (d1 @ frac @ ws @ u @ ib @ [66] @ rest)
           = Some (d1 @ frac @ ws @ u @ ib @ [66])"
proof -
  let ?s6 = "[66] @ rest"
  let ?s5 = "ib @ ?s6"
  let ?s4 = "u @ ?s5"
  let ?s3 = "ws @ ?s4"
  let ?s2 = "frac @ ?s3"
  let ?p4 = "\<lambda>c::int. c = 75 \<or> c = 77 \<or> c = 71 \<or> c = 84 \<or> c = 80"
  let ?t5 = "[Opt (\<lambda>c. c = 105), One (\<lambda>c. c = 66)]"
  let ?t4 = "Opt ?p4 # ?t5"
  let ?t3 = "Star isspace # ?t4"
  let ?t2 = "Star nd # ?t3"
  let ?t1 = "Opt (\<lambda>c. c = 46) # ?t2"
  have m5: "\<exists>more. seq_rests ?t5 ?s5 = rest # more"
    using ib by auto
  have m4: "\<exists>more. seq_rests ?t4 ?s4 = rest # more"
  proof (rule seq_rests_first)
    show "\<exists>rs. atom_rests (Opt ?p4) ?s4 = ?s5 # rs"
      using u ib by auto
    show "\<exists>ts. seq_rests ?t5 ?s5 = rest # ts"
      by (rule m5)
  qed
  have hd4: "hd ?s4 \<in> {75, 77, 71, 84, 80, 105, 66}" and ne4: "?s4 \<noteq> []"
    using u ib by auto
  have sp4: "\<not> isspace (hd ?s4)"
    using hd4 by (auto simp: isspace_def)
  have m3: "\<exists>more. seq_rests ?t3 ?s3 = rest # more"
  proof (rule seq_rests_first)
    show "\<exists>rs. atom_rests (Star isspace) ?s3 = ?s4 # rs"
      using star_run [OF ws, of ?s4] sp4 by simp
    show "\<exists>ts. seq_rests ?t4 ?s4 = rest # ts"
      by (rule m4)
  qed
  have hd3: "\<not> nd (hd ?s3)" and ne3: "?s3 \<noteq> []"
  proof -
    show "?s3 \<noteq> []" by simp
    show "\<not> nd (hd ?s3)"
    proof (cases ws)
      case Nil
      with hd4 nd show ?thesis by auto
    next
      case (Cons x xs)
      with ws nd show ?thesis by auto
    qed
  qed
  have m2: "\<exists>more. seq_rests ?t2 (d @ ?s3) = rest # more" if "\<forall>c\<in>set d. nd c" for d
  proof (rule seq_rests_first)
    show "\<exists>rs. atom_rests (Star nd) (d @ ?s3) = ?s3 # rs"
      using star_run [OF that, of ?s3] hd3 by simp
    show "\<exists>ts. seq_rests ?t3 ?s3 = rest # ts"
      by (rule m3)
  qed
  have m1: "\<exists>more. seq_rests ?t1 ?s2 = rest # more"
  proof (cases "frac = []")
    case True
    have "hd ?s3 \<noteq> 46"
    proof (cases ws)
      case Nil
      with hd4 show ?thesis by auto
    next
      case (Cons x xs)
      with ws show ?thesis by (auto simp: isspace_def)
    qed
    with ne3 have "atom_rests (Opt (\<lambda>c. c = 46)) ?s3 = [?s3]"
      by (cases ?s3) auto
    moreover from m2 [of "[]"] have "\<exists>more. seq_rests ?t2 ?s3 = rest # more"
      by simp
    ultimately show ?thesis
      using True by auto
  next
    case False
    with frac obtain d2 where d2: "frac = 46 # d2" "\<forall>c\<in>set d2. nd c"
      by auto
    show ?thesis
    proof (rule seq_rests_first)
      show "\<exists>rs. atom_rests (Opt (\<lambda>c. c = 46)) ?s2 = (d2 @ ?s3) # rs"
        using d2 by simp
      show "\<exists>ts. seq_rests ?t2 (d2 @ ?s3) = rest # ts"
        using d2 by (intro m2)
    qed
  qed
  have hd2: "\<not> nd (hd ?s2)"
  proof (cases "frac = []")
    case True
    with hd3 show ?thesis by simp
  next
    case False
    with frac nd show ?thesis by auto
  qed
  from d1 obtain x xs where x: "d1 = x # xs" "nd x" "\<forall>c\<in>set xs. nd c"
    by (cases d1) auto
  have "\<exists>more. seq_rests (size_pattern nd) (d1 @ ?s2) = rest # more"
    unfolding size_pattern_def
  proof (rule seq_rests_first)
    have "?s2 = [] \<or> \<not> nd (hd ?s2)"
      using hd2 by simp
    from star_run [OF x(3) this] show "\<exists>rs. atom_rests (Plus nd) (d1 @ ?s2) = ?s2 # rs"
      using x by simp
    show "\<exists>ts. seq_rests ?t1 ?s2 = rest # ts"
      by (rule m1)
  qed
  then show ?thesis
    by (auto simp: match_here_def)
qed

text \<open>The search returns the match at the first position that has one.\<close>

lemma re_search_here: "match_here pat s = Some m \<Longrightarrow> re_search pat s = Some m"
  by (cases s) simp_all

lemma re_search_first:
  assumes "\<forall>k<length pre. match_here pat (drop k (pre @ s)) = None"
    and "match_here pat s = Some m"
  shows "re_search pat (pre @ s) = Some m"
  using assms
proof (induction pre)
  case Nil
  then show ?case by (simp add: re_search_here)
next
  case (Cons c pre)
  from Cons.prems(1) have "match_here pat (drop 0 ((c # pre) @ s)) = None"
    by blast
  then have here: "match_here pat (c # pre @ s) = None"
    by simp
  have "\<forall>k<length pre. match_here pat (drop k (pre @ s)) = None"
  proof (intro allI impI)
    fix k
    assume "k < length pre"
    then have "Suc k < length (c # pre)"
      by simp
    with Cons.prems(1) have "match_here pat (drop (Suc k) ((c # pre) @ s)) = None"
      by blast
    then show "match_here pat (drop k (pre @ s)) = None"
      by simp
  qed
  with Cons.IH Cons.prems(2) have "re_search pat (pre @ s) = Some m"
    by simp
  with here show ?case
    by simp
qed

lemma find_first:
  assumes "\<forall>x\<in>set xs. \<not> P x" and "P y"
  shows "find P (xs @ y # ys) = Some y"
  using assms by (induction xs) simp_all

text \<open>
  So the size loop does report the size token of the row of the snapshot, when that
  row is the first line that starts with the number and no match of the pattern
  begins in the row before the token.
\<close>

lemma size_reported_when_first_match:
  assumes nd: "\<forall>c. nd c \<longrightarrow> c \<noteq> 46 \<and> \<not> isspace c \<and> c \<notin> {75, 77, 71, 84, 80, 105, 66}"
    and d1: "d1 \<noteq> []" "\<forall>c\<in>set d1. nd c"
    and frac: "frac = [] \<or> (\<exists>d2. frac = 46 # d2 \<and> (\<forall>c\<in>set d2. nd c))"
    and ws: "\<forall>c\<in>set ws. isspace c"
    and u: "u \<in> {[], [75], [77], [71], [84], [80]}"
    and ib: "ib \<in> {[], [105]}"
    and tok: "tok = d1 @ frac @ ws @ u @ ib @ [66]"
    and before_tok:
      "\<forall>k<length pre. match_here (size_pattern nd) (drop k (pre @ tok @ post)) = None"
    and keyed: "startswith (strip (pre @ tok @ post)) num"
    and first: "\<forall>line\<in>set earlier. \<not> startswith (strip line) num"
  shows "size_loop nd num (earlier @ (pre @ tok @ post) # later) d = tok"
proof -
  have "match_here (size_pattern nd) (tok @ post) = Some tok"
    using size_token_matched [OF nd d1 frac ws u ib, of post] tok by simp
  with before_tok have "re_search (size_pattern nd) (pre @ tok @ post) = Some tok"
    by (rule re_search_first)
  moreover from first keyed
  have "find (\<lambda>line. startswith (strip line) num) (earlier @ (pre @ tok @ post) # later)
      = Some (pre @ tok @ post)"
    by (rule find_first)
  ultimately show ?thesis
    by (simp add: size_loop_find)
qed

section \<open>The claims\<close>

text \<open>
  C1. When the output of \<open>get-config\<close> has a line that contains \<open>SUBVOLUME\<close> and
  that U+2502 splits into at least two columns, the subvolume the handler extracts
  is the second column of the first such line, with the whitespace at its ends
  removed.
\<close>

theorem subvolume_of_well_formed_table:
  assumes "find (\<lambda>line. contains line (ascii ''SUBVOLUME'') \<and> 2 \<le> length (split_chr bar line))
             (split_chr newline out) = Some line"
  shows "subvolume_loop (split_chr newline out) = Some (strip (split_chr bar line ! 1))"
  using assms by (simp add: subvolume_loop_find)

theorem subvolume_of_well_formed_table_witness:
  "find (\<lambda>line. contains line (ascii ''SUBVOLUME'') \<and> 2 \<le> length (split_chr bar line))
     (split_chr newline config_table) = Some (row [''SUBVOLUME             '', ''/home''])
   \<and> subvolume_loop (split_chr newline config_table)
       = Some (strip (split_chr bar (row [''SUBVOLUME             '', ''/home'']) ! 1))
   \<and> strip (split_chr bar (row [''SUBVOLUME             '', ''/home'']) ! 1) = ascii ''/home''"
proof -
  have first: "find (\<lambda>line. contains line (ascii ''SUBVOLUME'') \<and> 2 \<le> length (split_chr bar line))
     (split_chr newline config_table) = Some (row [''SUBVOLUME             '', ''/home''])"
    by code_simp
  have col: "strip (split_chr bar (row [''SUBVOLUME             '', ''/home'']) ! 1) = ascii ''/home''"
    by code_simp
  from first subvolume_of_well_formed_table [OF first] col show ?thesis
    by (intro conjI)
qed

text \<open>
  C2. The handler is to report the size of the snapshot from the row of the listing
  that the snapshot number keys. It searches the whole row for the pattern, so in a
  listing whose date column ends in a time zone that starts with \<open>B\<close>, the seconds
  of the time and that letter are taken as the size: for the row of snapshot 5 with
  the size column \<open>128.00 KiB\<close>, the summary reports \<open>29 B\<close>.
\<close>

theorem size_taken_from_date_column:
  "map strip (split_chr bar (split_chr newline listing_bst ! 2))
     = [ascii ''5'', ascii ''single'', [], ascii ''Tue 07 Jul 2020 10:40:29 BST'', ascii ''root'',
        ascii ''128.00 KiB'', [], ascii ''before update'', []]
   \<and> size_loop ascii_digit (ascii ''5'') (split_chr newline listing_bst) (ascii ''Unknown'')
       = ascii ''29 B''
   \<and> dialogs (take_snapshot snapper_bst (typed (ascii ''before update'')))
       = [Information (ascii ''Success'')
            (ascii ''Snapshot #5 created successfully!'' @ [newline, newline]
             @ ascii ''Size: 29 B'' @ [newline]
             @ ascii ''Location: /home/.snapshots/5/snapshot'')]"
  by code_simp

text \<open>
  With the date in the format of the \<open>C\<close> locale, the same row gives the size of its
  size column, as \<open>size_reported_when_first_match\<close> says of every row in which
  nothing before the size token matches the pattern.
\<close>

lemma size_found_in_c_locale:
  "size_loop ascii_digit (ascii ''5'') (split_chr newline listing_c) (ascii ''Unknown'')
     = ascii ''128.00 KiB''"
  by code_simp

text \<open>
  C3, as stated, fails: when the row of the listing has no size token, the run is
  successful and the summary reports the size \<open>Unknown\<close>.
\<close>

theorem missing_size_is_not_an_error:
  "map (re_search (size_pattern ascii_digit)) (split_chr newline listing_nosize)
     = [None, None, None]
   \<and> run_succeeds snapper_nosize (typed (ascii ''before update''))
   \<and> dialogs (take_snapshot snapper_nosize (typed (ascii ''before update'')))
       = [Information (ascii ''Success'')
            (ascii ''Snapshot #5 created successfully!'' @ [newline, newline]
             @ ascii ''Size: Unknown'' @ [newline]
             @ ascii ''Location: /home/.snapshots/5/snapshot'')]"
  by code_simp

text \<open>
  C3, amended. For a run with a description that is not empty: when the create
  command exits with code 0 and prints no number, or when \<open>get-config\<close> exits with
  code 0 and its output gives no subvolume (no matching line, or an empty column),
  the run fails and the error box names the missing field. When \<open>list\<close> exits with
  code 0 and its output has no size token (no line starts with the number, or the
  first such line has no match of the pattern), the run succeeds and the summary
  reports the size \<open>Unknown\<close>.
\<close>

theorem missing_field_outcomes:
  assumes "strip (comment_input g) = comment" and "comment \<noteq> []"
  shows
    "(\<forall>out err.
        respond w (create_cmd comment) = Exited 0 out err \<and> strip out = [] \<longrightarrow>
        \<not> run_succeeds w g \<and>
        dialogs (take_snapshot w g) =
          dialogs g
          @ [Critical (ascii ''Error'')
               (ascii ''An unexpected error occurred: Failed to get snapshot number'')])
     \<and> (\<forall>num out err.
        created_number w comment = Some num \<and>
        respond w get_config_cmd = Exited 0 out err \<and>
        (subvolume_loop (split_chr newline out) = None
         \<or> subvolume_loop (split_chr newline out) = Some []) \<longrightarrow>
        \<not> run_succeeds w g \<and>
        dialogs (take_snapshot w g) =
          dialogs g
          @ [Critical (ascii ''Error'')
               (ascii ''An unexpected error occurred: Failed to get subvolume path'')])
     \<and> (\<forall>num sv out err.
        created_number w comment = Some num \<and>
        config_subvolume w = Some sv \<and>
        respond w list_cmd = Exited 0 out err \<and>
        (case find (\<lambda>line. startswith (strip line) num) (split_chr newline out) of
           None \<Rightarrow> True
         | Some line \<Rightarrow> re_search (size_pattern (isdecimal w)) line = None) \<longrightarrow>
        run_succeeds w g \<and>
        dialogs (take_snapshot w g) =
          dialogs g
          @ [Information (ascii ''Success'')
               (ascii ''Snapshot #'' @ num @ ascii '' created successfully!''
                @ [newline, newline] @ ascii ''Size: Unknown'' @ [newline]
                @ ascii ''Location: '' @ sv @ ascii ''/.snapshots/'' @ num @ ascii ''/snapshot'')])"
  using assms
  by (cases rule: run_cases [where g = g and w = w])
    (auto simp: handler_defs ascii_def size_loop_find split: option.splits)

theorem missing_field_outcomes_witness:
  "\<not> run_succeeds snapper_no_number (typed (ascii ''before update''))
   \<and> dialogs (take_snapshot snapper_no_number (typed (ascii ''before update''))) =
       dialogs (typed (ascii ''before update''))
       @ [Critical (ascii ''Error'')
            (ascii ''An unexpected error occurred: Failed to get snapshot number'')]
   \<and> \<not> run_succeeds snapper_no_subvolume (typed (ascii ''before update''))
   \<and> dialogs (take_snapshot snapper_no_subvolume (typed (ascii ''before update''))) =
       dialogs (typed (ascii ''before update''))
       @ [Critical (ascii ''Error'')
            (ascii ''An unexpected error occurred: Failed to get subvolume path'')]
   \<and> run_succeeds snapper_nosize (typed (ascii ''before update''))
   \<and> dialogs (take_snapshot snapper_nosize (typed (ascii ''before update''))) =
       dialogs (typed (ascii ''before update''))
       @ [Information (ascii ''Success'')
            (ascii ''Snapshot #'' @ ascii ''5'' @ ascii '' created successfully!''
             @ [newline, newline] @ ascii ''Size: Unknown'' @ [newline]
             @ ascii ''Location: '' @ ascii ''/home'' @ ascii ''/.snapshots/'' @ ascii ''5''
             @ ascii ''/snapshot'')]"
proof -
  let ?g = "typed (ascii ''before update'')"
  let ?c = "ascii ''before update''"
  have c: "strip (comment_input ?g) = ?c" and ne: "?c \<noteq> []"
    by code_simp+
  have number: "respond snapper_no_number (create_cmd ?c) = Exited 0 [newline] []
      \<and> strip [newline] = []"
    by code_simp
  have subvolume: "created_number snapper_no_subvolume ?c = Some (ascii ''5'')
      \<and> respond snapper_no_subvolume get_config_cmd
          = Exited 0 (row [''FSTYPE                '', ''btrfs''] @ [newline]) []
      \<and> (subvolume_loop (split_chr newline (row [''FSTYPE                '', ''btrfs''] @ [newline]))
            = None
         \<or> subvolume_loop (split_chr newline (row [''FSTYPE                '', ''btrfs''] @ [newline]))
            = Some [])"
    by code_simp
  have size: "created_number snapper_nosize ?c = Some (ascii ''5'')
      \<and> config_subvolume snapper_nosize = Some (ascii ''/home'')
      \<and> respond snapper_nosize list_cmd = Exited 0 listing_nosize []
      \<and> (case find (\<lambda>line. startswith (strip line) (ascii ''5''))
                 (split_chr newline listing_nosize) of
           None \<Rightarrow> True
         | Some line \<Rightarrow> re_search (size_pattern (isdecimal snapper_nosize)) line = None)"
    by code_simp
  from number missing_field_outcomes [where w = snapper_no_number, OF c ne]
  have 1: "\<not> run_succeeds snapper_no_number ?g
   \<and> dialogs (take_snapshot snapper_no_number ?g) =
       dialogs ?g
       @ [Critical (ascii ''Error'')
            (ascii ''An unexpected error occurred: Failed to get snapshot number'')]"
    by blast
  from subvolume missing_field_outcomes [where w = snapper_no_subvolume, OF c ne]
  have 2: "\<not> run_succeeds snapper_no_subvolume ?g
   \<and> dialogs (take_snapshot snapper_no_subvolume ?g) =
       dialogs ?g
       @ [Critical (ascii ''Error'')
            (ascii ''An unexpected error occurred: Failed to get subvolume path'')]"
    by blast
  from size missing_field_outcomes [where w = snapper_nosize, OF c ne]
  have 3: "run_succeeds snapper_nosize ?g
   \<and> dialogs (take_snapshot snapper_nosize ?g) =
       dialogs ?g
       @ [Information (ascii ''Success'')
            (ascii ''Snapshot #'' @ ascii ''5'' @ ascii '' created successfully!''
             @ [newline, newline] @ ascii ''Size: Unknown'' @ [newline]
             @ ascii ''Location: '' @ ascii ''/home'' @ ascii ''/.snapshots/'' @ ascii ''5''
             @ ascii ''/snapshot'')]"
    by blast
  from 1 2 3 show ?thesis
    by blast
qed

text \<open>
  C4. When the description is empty, the handler only shows the warning: nothing
  else of the window changes and no command is issued.
\<close>

theorem empty_description_rejected:
  assumes "comment_input g = []"
  shows "take_snapshot w g =
           g\<lparr>dialogs := dialogs g
                @ [Warning (ascii ''Warning'')
                     (ascii ''Please enter a description for the snapshot.'')]\<rparr>
         \<and> issued w g = []"
  using assms by (simp add: take_snapshot_def issued_def strip_def)

theorem empty_description_rejected_witness:
  "comment_input (typed []) = []
   \<and> take_snapshot snapper_c (typed []) =
       (typed [])\<lparr>dialogs := dialogs (typed [])
                @ [Warning (ascii ''Warning'')
                     (ascii ''Please enter a description for the snapshot.'')]\<rparr>
   \<and> issued snapper_c (typed []) = []"
proof -
  have empty: "comment_input (typed []) = []"
    by (simp add: typed_def)
  from empty empty_description_rejected [OF empty, of snapper_c] show ?thesis
    by (intro conjI) simp_all
qed

text \<open>
  C5. When a command the handler has issued exits with a code other than 0, the run
  fails and the error box shows the text of that command's error stream, unchanged,
  after a fixed prefix.
\<close>

theorem nonzero_exit_surfaces_stderr:
  assumes "argv \<in> set (issued w g)"
    and "respond w argv = Exited rc out err" and "rc \<noteq> 0"
  shows "\<not> run_succeeds w g
         \<and> dialogs (take_snapshot w g) =
             dialogs g
             @ [Critical (ascii ''Error'') (ascii ''Failed to create snapshot. Error: '' @ err)]"
  using assms
  by (cases rule: run_cases [where g = g and w = w]) (auto simp: handler_defs)

theorem nonzero_exit_surfaces_stderr_witness:
  "list_cmd \<in> set (issued snapper_list_fails (typed (ascii ''before update'')))
   \<and> respond snapper_list_fails list_cmd = Exited 1 [] (ascii ''Unknown config.'' @ [newline])
   \<and> \<not> run_succeeds snapper_list_fails (typed (ascii ''before update''))
   \<and> dialogs (take_snapshot snapper_list_fails (typed (ascii ''before update''))) =
       dialogs (typed (ascii ''before update''))
       @ [Critical (ascii ''Error'')
            (ascii ''Failed to create snapshot. Error: '' @ (ascii ''Unknown config.'' @ [newline]))]"
proof -
  have reached: "list_cmd \<in> set (issued snapper_list_fails (typed (ascii ''before update'')))"
    by code_simp
  have failed: "respond snapper_list_fails list_cmd
      = Exited 1 [] (ascii ''Unknown config.'' @ [newline])"
    by code_simp
  have "(1::int) \<noteq> 0"
    by simp
  from reached failed nonzero_exit_surfaces_stderr [OF reached failed this] show ?thesis
    by (intro conjI) simp_all
qed

text \<open>
  C6. For a description that is not empty, the commands the handler issues are
  \<open>sudo snapper create --description <the stripped description> --type single
  --print-number\<close>, then \<open>sudo snapper get-config\<close>, then
  \<open>sudo snapper list -t single\<close>, and no others. The sequence ends after the first
  step that fails: after the create command when it cannot be run, exits with a code
  other than 0 or prints no number; after \<open>get-config\<close> when it cannot be run, exits
  with a code other than 0 or gives no subvolume. All three commands are issued
  exactly when the first two steps succeed.
\<close>

theorem commands_in_order:
  assumes "strip (comment_input g) = comment" and "comment \<noteq> []"
  shows "issued w g =
     (case created_number w comment of
        None \<Rightarrow>
          [[ascii ''sudo'', ascii ''snapper'', ascii ''create'', ascii ''--description'', comment,
            ascii ''--type'', ascii ''single'', ascii ''--print-number'']]
      | Some num \<Rightarrow>
          (case config_subvolume w of
             None \<Rightarrow>
               [[ascii ''sudo'', ascii ''snapper'', ascii ''create'', ascii ''--description'',
                 comment, ascii ''--type'', ascii ''single'', ascii ''--print-number''],
                [ascii ''sudo'', ascii ''snapper'', ascii ''get-config'']]
           | Some sv \<Rightarrow>
               [[ascii ''sudo'', ascii ''snapper'', ascii ''create'', ascii ''--description'',
                 comment, ascii ''--type'', ascii ''single'', ascii ''--print-number''],
                [ascii ''sudo'', ascii ''snapper'', ascii ''get-config''],
                [ascii ''sudo'', ascii ''snapper'', ascii ''list'', ascii ''-t'', ascii ''single'']]))"
proof -
  have "issued w g =
     (case created_number w comment of
        None \<Rightarrow> [create_cmd comment]
      | Some num \<Rightarrow>
          (case config_subvolume w of
             None \<Rightarrow> [create_cmd comment, get_config_cmd]
           | Some sv \<Rightarrow> [create_cmd comment, get_config_cmd, list_cmd]))"
    using assms
    by (cases rule: run_cases [where g = g and w = w]) (simp_all add: handler_defs)
  then show ?thesis
    unfolding create_cmd_def get_config_cmd_def list_cmd_def .
qed

theorem commands_in_order_witness:
  "issued snapper_c (typed (ascii '' before update ''))
     = [[ascii ''sudo'', ascii ''snapper'', ascii ''create'', ascii ''--description'',
         ascii ''before update'', ascii ''--type'', ascii ''single'', ascii ''--print-number''],
        [ascii ''sudo'', ascii ''snapper'', ascii ''get-config''],
        [ascii ''sudo'', ascii ''snapper'', ascii ''list'', ascii ''-t'', ascii ''single'']]
   \<and> issued snapper_no_subvolume (typed (ascii '' before update ''))
     = [[ascii ''sudo'', ascii ''snapper'', ascii ''create'', ascii ''--description'',
         ascii ''before update'', ascii ''--type'', ascii ''single'', ascii ''--print-number''],
        [ascii ''sudo'', ascii ''snapper'', ascii ''get-config'']]
   \<and> issued snapper_refused (typed (ascii '' before update ''))
     = [[ascii ''sudo'', ascii ''snapper'', ascii ''create'', ascii ''--description'',
         ascii ''before update'', ascii ''--type'', ascii ''single'', ascii ''--print-number'']]"
proof -
  let ?g = "typed (ascii '' before update '')"
  let ?c = "ascii ''before update''"
  have c: "strip (comment_input ?g) = ?c" and ne: "?c \<noteq> []"
    by code_simp+
  have all: "created_number snapper_c ?c = Some (ascii ''5'')"
      "config_subvolume snapper_c = Some (ascii ''/home'')"
    by code_simp+
  have two: "created_number snapper_no_subvolume ?c = Some (ascii ''5'')"
      "config_subvolume snapper_no_subvolume = None"
    by code_simp+
  have one: "created_number snapper_refused ?c = None"
    by code_simp
  from commands_in_order [where w = snapper_c, OF c ne] all
  have 3: "issued snapper_c ?g
     = [[ascii ''sudo'', ascii ''snapper'', ascii ''create'', ascii ''--description'',
         ?c, ascii ''--type'', ascii ''single'', ascii ''--print-number''],
        [ascii ''sudo'', ascii ''snapper'', ascii ''get-config''],
        [ascii ''sudo'', ascii ''snapper'', ascii ''list'', ascii ''-t'', ascii ''single'']]"
    by simp
  from commands_in_order [where w = snapper_no_subvolume, OF c ne] two
  have 2: "issued snapper_no_subvolume ?g
     = [[ascii ''sudo'', ascii ''snapper'', ascii ''create'', ascii ''--description'',
         ?c, ascii ''--type'', ascii ''single'', ascii ''--print-number''],
        [ascii ''sudo'', ascii ''snapper'', ascii ''get-config'']]"
    by simp
  from commands_in_order [where w = snapper_refused, OF c ne] one
  have 1: "issued snapper_refused ?g
     = [[ascii ''sudo'', ascii ''snapper'', ascii ''create'', ascii ''--description'',
         ?c, ascii ''--type'', ascii ''single'', ascii ''--print-number'']]"
    by simp
  from 3 2 1 show ?thesis
    by (intro conjI)
qed

text \<open>
  C7. In every successful run the handler shows one information box, titled
  \<open>Success\<close>, whose text gives the snapshot number (the stripped output of the
  create command), the size (what the size loop finds in the listing) and the
  location, which is the subvolume followed by \<open>/.snapshots/\<close>, the number and
  \<open>/snapshot\<close>.
\<close>

theorem success_summary:
  assumes "run_succeeds w g"
  shows "\<exists>num sv listing.
           created_number w (strip (comment_input g)) = Some num \<and>
           config_subvolume w = Some sv \<and>
           listing_text w = Some listing \<and>
           dialogs (take_snapshot w g) =
             dialogs g
             @ [Information (ascii ''Success'')
                  (ascii ''Snapshot #'' @ num @ ascii '' created successfully!''
                   @ [newline, newline]
                   @ ascii ''Size: ''
                   @ size_loop (isdecimal w) num (split_chr newline listing) (ascii ''Unknown'')
                   @ [newline]
                   @ ascii ''Location: '' @ (sv @ ascii ''/.snapshots/'' @ num @ ascii ''/snapshot''))]"
  using assms
  by (cases rule: run_cases [where g = g and w = w]) (simp_all add: handler_defs)

theorem success_summary_witness:
  "run_succeeds snapper_c (typed (ascii '' before update ''))
   \<and> dialogs (take_snapshot snapper_c (typed (ascii '' before update ''))) =
       [Information (ascii ''Success'')
          (ascii ''Snapshot #5 created successfully!'' @ [newline, newline]
           @ ascii ''Size: 128.00 KiB'' @ [newline]
           @ ascii ''Location: /home/.snapshots/5/snapshot'')]"
proof -
  let ?g = "typed (ascii '' before update '')"
  have ok: "run_succeeds snapper_c ?g"
    by code_simp
  have number: "created_number snapper_c (strip (comment_input ?g)) = Some (ascii ''5'')"
    and subvolume: "config_subvolume snapper_c = Some (ascii ''/home'')"
    and listing: "listing_text snapper_c = Some listing_c"
    by code_simp+
  from success_summary [OF ok] number subvolume listing
  have shown: "dialogs (take_snapshot snapper_c ?g) =
      dialogs ?g
      @ [Information (ascii ''Success'')
           (ascii ''Snapshot #'' @ ascii ''5'' @ ascii '' created successfully!''
            @ [newline, newline]
            @ ascii ''Size: ''
            @ size_loop (isdecimal snapper_c) (ascii ''5'') (split_chr newline listing_c)
                (ascii ''Unknown'')
            @ [newline]
            @ ascii ''Location: ''
            @ (ascii ''/home'' @ ascii ''/.snapshots/'' @ ascii ''5'' @ ascii ''/snapshot''))]"
    by auto
  have "dialogs ?g
      @ [Information (ascii ''Success'')
           (ascii ''Snapshot #'' @ ascii ''5'' @ ascii '' created successfully!''
            @ [newline, newline]
            @ ascii ''Size: ''
            @ size_loop (isdecimal snapper_c) (ascii ''5'') (split_chr newline listing_c)
                (ascii ''Unknown'')
            @ [newline]
            @ ascii ''Location: ''
            @ (ascii ''/home'' @ ascii ''/.snapshots/'' @ ascii ''5'' @ ascii ''/snapshot''))]
     = [Information (ascii ''Success'')
          (ascii ''Snapshot #5 created successfully!'' @ [newline, newline]
           @ ascii ''Size: 128.00 KiB'' @ [newline]
           @ ascii ''Location: /home/.snapshots/5/snapshot'')]"
    by code_simp
  with shown have "dialogs (take_snapshot snapper_c ?g) =
       [Information (ascii ''Success'')
          (ascii ''Snapshot #5 created successfully!'' @ [newline, newline]
           @ ascii ''Size: 128.00 KiB'' @ [newline]
           @ ascii ''Location: /home/.snapshots/5/snapshot'')]"
    by (rule trans)
  with ok show ?thesis
    by (intro conjI)
qed

text \<open>
  C8. Every command the handler issues is issued while the button is disabled. A
  run that gets past the emptiness check ends with the button enabled, whether it
  succeeds or fails; a run that is rejected leaves the button as it was. So the
  handler, entered with the button enabled, never ends with it disabled.
\<close>

theorem button_reenabled:
  "(\<forall>(argv, enabled) \<in> set (drop (length (calls g)) (calls (take_snapshot w g))). \<not> enabled)
   \<and> (strip (comment_input g) \<noteq> [] \<longrightarrow> snap_button_enabled (take_snapshot w g))
   \<and> (strip (comment_input g) = [] \<longrightarrow>
        snap_button_enabled (take_snapshot w g) = snap_button_enabled g)
   \<and> (snap_button_enabled g \<longrightarrow> snap_button_enabled (take_snapshot w g))"
  by (cases rule: run_cases [where g = g and w = w]) (simp_all add: handler_defs)

theorem button_reenabled_witness:
  "map snd (calls (take_snapshot snapper_c (typed (ascii ''before update''))))
     = [False, False, False]
   \<and> snap_button_enabled (take_snapshot snapper_c (typed (ascii ''before update'')))
   \<and> map snd (calls (take_snapshot snapper_refused (typed (ascii ''before update''))))
     = [False]
   \<and> snap_button_enabled (take_snapshot snapper_refused (typed (ascii ''before update'')))
   \<and> snap_button_enabled (take_snapshot snapper_c (typed []))"
proof -
  let ?g = "typed (ascii ''before update'')"
  have ne: "strip (comment_input ?g) \<noteq> []"
    by code_simp
  have on: "snap_button_enabled (typed [])"
    by (simp add: typed_def)
  have during: "map snd (calls (take_snapshot snapper_c ?g)) = [False, False, False]"
      "map snd (calls (take_snapshot snapper_refused ?g)) = [False]"
    by code_simp+
  from ne button_reenabled [of ?g snapper_c]
  have 1: "snap_button_enabled (take_snapshot snapper_c ?g)"
    by blast
  from ne button_reenabled [of ?g snapper_refused]
  have 2: "snap_button_enabled (take_snapshot snapper_refused ?g)"
    by blast
  from on button_reenabled [of "typed []" snapper_c]
  have 3: "snap_button_enabled (take_snapshot snapper_c (typed []))"
    by blast
  from during 1 2 3 show ?thesis
    by (intro conjI)
qed

text \<open>
  C9. A description that consists of whitespace only is treated as an empty one:
  the handler only shows the warning and issues no command. In every run, each
  command issued is \<open>sudo snapper create --description d --type single
  --print-number\<close> with \<open>d\<close> the stripped text of the field, or one of the two
  commands \<open>sudo snapper get-config\<close> and \<open>sudo snapper list -t single\<close>, which
  carry no description; and when any command is issued, the first is that create
  command.
\<close>

theorem whitespace_description_rejected:
  "((\<forall>c \<in> set (comment_input g). isspace c) \<longrightarrow>
      take_snapshot w g =
        g\<lparr>dialogs := dialogs g
             @ [Warning (ascii ''Warning'')
                  (ascii ''Please enter a description for the snapshot.'')]\<rparr>
      \<and> issued w g = [])
   \<and> (\<forall>argv \<in> set (issued w g).
        argv = [ascii ''sudo'', ascii ''snapper'', ascii ''create'', ascii ''--description'',
                strip (comment_input g),
                ascii ''--type'', ascii ''single'', ascii ''--print-number'']
        \<or> argv = [ascii ''sudo'', ascii ''snapper'', ascii ''get-config'']
        \<or> argv = [ascii ''sudo'', ascii ''snapper'', ascii ''list'', ascii ''-t'', ascii ''single''])
   \<and> (issued w g \<noteq> [] \<longrightarrow>
        hd (issued w g) =
          [ascii ''sudo'', ascii ''snapper'', ascii ''create'', ascii ''--description'',
           strip (comment_input g),
           ascii ''--type'', ascii ''single'', ascii ''--print-number''])"
proof (intro conjI impI)
  assume "\<forall>c \<in> set (comment_input g). isspace c"
  then have "strip (comment_input g) = []"
    by (simp add: strip_Nil_iff)
  then show "take_snapshot w g =
        g\<lparr>dialogs := dialogs g
             @ [Warning (ascii ''Warning'')
                  (ascii ''Please enter a description for the snapshot.'')]\<rparr>"
    and "issued w g = []"
    by (simp_all add: take_snapshot_def issued_def)
next
  have "\<forall>argv \<in> set (issued w g).
        argv = create_cmd (strip (comment_input g))
        \<or> argv = get_config_cmd \<or> argv = list_cmd"
    by (cases rule: run_cases [where g = g and w = w]) (simp_all add: handler_defs)
  then show "\<forall>argv \<in> set (issued w g).
        argv = [ascii ''sudo'', ascii ''snapper'', ascii ''create'', ascii ''--description'',
                strip (comment_input g),
                ascii ''--type'', ascii ''single'', ascii ''--print-number'']
        \<or> argv = [ascii ''sudo'', ascii ''snapper'', ascii ''get-config'']
        \<or> argv = [ascii ''sudo'', ascii ''snapper'', ascii ''list'', ascii ''-t'', ascii ''single'']"
    by (simp add: create_cmd_def get_config_cmd_def list_cmd_def)
next
  assume "issued w g \<noteq> []"
  then have "hd (issued w g) = create_cmd (strip (comment_input g))"
    by (cases rule: run_cases [where g = g and w = w]) (simp_all add: handler_defs)
  then show "hd (issued w g) =
          [ascii ''sudo'', ascii ''snapper'', ascii ''create'', ascii ''--description'',
           strip (comment_input g),
           ascii ''--type'', ascii ''single'', ascii ''--print-number'']"
    by (simp add: create_cmd_def)
qed

theorem whitespace_description_rejected_witness:
  "list_all isspace (comment_input (typed [32, 9, 160, 8195]))
   \<and> take_snapshot snapper_c (typed [32, 9, 160, 8195]) =
       (typed [32, 9, 160, 8195])
         \<lparr>dialogs := dialogs (typed [32, 9, 160, 8195])
            @ [Warning (ascii ''Warning'')
                 (ascii ''Please enter a description for the snapshot.'')]\<rparr>
   \<and> issued snapper_c (typed [32, 9, 160, 8195]) = []
   \<and> issued snapper_c (typed (ascii '' before update '')) \<noteq> []
   \<and> hd (issued snapper_c (typed (ascii '' before update ''))) =
       [ascii ''sudo'', ascii ''snapper'', ascii ''create'', ascii ''--description'',
        ascii ''before update'', ascii ''--type'', ascii ''single'', ascii ''--print-number'']"
proof -
  let ?g = "typed [32, 9, 160, 8195]"
  let ?h = "typed (ascii '' before update '')"
  have blank: "list_all isspace (comment_input ?g)"
    by code_simp
  then have "\<forall>c \<in> set (comment_input ?g). isspace c"
    by (simp add: list_all_iff)
  with whitespace_description_rejected [of ?g snapper_c]
  have 1: "take_snapshot snapper_c ?g =
       ?g\<lparr>dialogs := dialogs ?g
            @ [Warning (ascii ''Warning'')
                 (ascii ''Please enter a description for the snapshot.'')]\<rparr>
     \<and> issued snapper_c ?g = []"
    by blast
  have some: "issued snapper_c ?h \<noteq> []"
    and stripped: "strip (comment_input ?h) = ascii ''before update''"
    by code_simp+
  from some whitespace_description_rejected [of ?h snapper_c]
  have "hd (issued snapper_c ?h) =
       [ascii ''sudo'', ascii ''snapper'', ascii ''create'', ascii ''--description'',
        strip (comment_input ?h), ascii ''--type'', ascii ''single'', ascii ''--print-number'']"
    by blast
  with stripped have 2: "hd (issued snapper_c ?h) =
       [ascii ''sudo'', ascii ''snapper'', ascii ''create'', ascii ''--description'',
        ascii ''before update'', ascii ''--type'', ascii ''single'', ascii ''--print-number'']"
    by simp
  from blank 1 some 2 show ?thesis
    by blast
qed

text \<open>
  C10. The input field is cleared exactly in the successful runs, those that end
  with the information box: after a run that is rejected or fails, the field has the
  text it had before.
\<close>

theorem field_cleared_on_success_only:
  "comment_input (take_snapshot w g) = (if run_succeeds w g then [] else comment_input g)
   \<and> run_succeeds w g =
       (\<exists>title msg. dialogs (take_snapshot w g) = dialogs g @ [Information title msg])"
  by (cases rule: run_cases [where g = g and w = w]) (simp_all add: handler_defs)

theorem field_cleared_on_success_only_witness:
  "run_succeeds snapper_c (typed (ascii ''before update''))
   \<and> comment_input (take_snapshot snapper_c (typed (ascii ''before update''))) = []
   \<and> \<not> run_succeeds snapper_refused (typed (ascii ''before update''))
   \<and> comment_input (take_snapshot snapper_refused (typed (ascii ''before update'')))
       = comment_input (typed (ascii ''before update''))
   \<and> \<not> run_succeeds snapper_c (typed [32])
   \<and> comment_input (take_snapshot snapper_c (typed [32])) = comment_input (typed [32])"
proof -
  let ?g = "typed (ascii ''before update'')"
  have ok: "run_succeeds snapper_c ?g"
    and refused: "\<not> run_succeeds snapper_refused ?g"
    and rejected: "\<not> run_succeeds snapper_c (typed [32])"
    by code_simp+
  from ok field_cleared_on_success_only [of snapper_c ?g]
  have 1: "comment_input (take_snapshot snapper_c ?g) = []"
    by simp
  from refused field_cleared_on_success_only [of snapper_refused ?g]
  have 2: "comment_input (take_snapshot snapper_refused ?g) = comment_input ?g"
    by simp
  from rejected field_cleared_on_success_only [of snapper_c "typed [32]"]
  have 3: "comment_input (take_snapshot snapper_c (typed [32])) = comment_input (typed [32])"
    by simp
  from ok 1 refused 2 rejected 3 show ?thesis
    by (intro conjI)
qed

end
